theory Spec2Isabelle
  imports Main
begin

section \<open>The wiki markup renderer of TxPyWiki (class \<open>TxPyWikiParser\<close> of \<open>main.py\<close>)\<close>

text \<open>
  Python strings are modelled as \<^typ>\<open>string\<close>: the list of the bytes of the UTF-8
  encoding of the text. Searching, replacing and splitting on ASCII delimiters give the
  same result on the UTF-8 bytes as on the code points. The character classes of the
  regular expressions are the ASCII ones: \<open>\w\<close> is \<open>[A-Za-z0-9_]\<close> and white space
  is what \<open>str.isspace\<close> accepts below 128; a byte from 128 on is an ordinary character
  that is neither a word character nor white space. The non-ASCII literals of the source
  are written as their UTF-8 bytes.
\<close>

subsection \<open>String operations of Python\<close>

definition nl :: string where
  "nl = [CHR 0x0A]"

definition bsl :: char where
  "bsl = CHR 0x5C"

definition apostrophe :: char where
  "apostrophe = CHR 0x27"

text \<open>\<open>strip_prefix p s\<close> is the rest of \<open>s\<close> after the prefix \<open>p\<close>, when \<open>s.startswith(p)\<close>.\<close>

fun strip_prefix :: "string \<Rightarrow> string \<Rightarrow> string option" where
  "strip_prefix [] s = Some s"
| "strip_prefix (p # ps) [] = None"
| "strip_prefix (p # ps) (c # cs) = (if p = c then strip_prefix ps cs else None)"

definition startswith :: "string \<Rightarrow> string \<Rightarrow> bool" where
  "startswith s p = (strip_prefix p s \<noteq> None)"

text \<open>\<open>contains sub s\<close> is Python's \<open>sub in s\<close>.\<close>

fun contains :: "string \<Rightarrow> string \<Rightarrow> bool" where
  "contains sub [] = (sub = [])"
| "contains sub (c # cs) = (strip_prefix sub (c # cs) \<noteq> None \<or> contains sub cs)"

text \<open>
  \<open>str.replace(old, new)\<close>, every occurrence from left to right, and with count 1 the
  first occurrence only. The source never passes an empty \<open>old\<close>.
\<close>

fun replace_all :: "string \<Rightarrow> string \<Rightarrow> string \<Rightarrow> string" where
  "replace_all old new [] = []"
| "replace_all old new (c # cs) =
     (case strip_prefix old (c # cs) of
        None \<Rightarrow> c # replace_all old new cs
      | Some r \<Rightarrow> if length r < length (c # cs) then new @ replace_all old new r
                  else c # replace_all old new cs)"

fun replace_first :: "string \<Rightarrow> string \<Rightarrow> string \<Rightarrow> string" where
  "replace_first old new [] = []"
| "replace_first old new (c # cs) =
     (case strip_prefix old (c # cs) of
        None \<Rightarrow> c # replace_first old new cs
      | Some r \<Rightarrow> new @ r)"

text \<open>\<open>s.split(sep)\<close> for a non-empty separator; \<open>acc\<close> is the piece being read, reversed.\<close>

fun split_acc :: "string \<Rightarrow> string \<Rightarrow> string \<Rightarrow> string list" where
  "split_acc sep acc [] = [rev acc]"
| "split_acc sep acc (c # cs) =
     (case strip_prefix sep (c # cs) of
        None \<Rightarrow> split_acc sep (c # acc) cs
      | Some r \<Rightarrow> if length r < length (c # cs) then rev acc # split_acc sep [] r
                  else split_acc sep (c # acc) cs)"

definition split :: "string \<Rightarrow> string \<Rightarrow> string list" where
  "split s sep = split_acc sep [] s"

text \<open>\<open>s.split(sep, 1)\<close> when \<open>sep in s\<close>: the text before and after the first occurrence.\<close>

fun split_once_acc :: "string \<Rightarrow> string \<Rightarrow> string \<Rightarrow> string \<times> string" where
  "split_once_acc sep acc [] = (rev acc, [])"
| "split_once_acc sep acc (c # cs) =
     (case strip_prefix sep (c # cs) of
        None \<Rightarrow> split_once_acc sep (c # acc) cs
      | Some r \<Rightarrow> (rev acc, r))"

definition split_once :: "string \<Rightarrow> string \<Rightarrow> string \<times> string" where
  "split_once s sep = split_once_acc sep [] s"

text \<open>\<open>sep.join(xs)\<close>.\<close>

fun join :: "string \<Rightarrow> string list \<Rightarrow> string" where
  "join sep [] = []"
| "join sep [x] = x"
| "join sep (x # y # ys) = x @ sep @ join sep (y # ys)"

text \<open>White space as \<open>str.isspace\<close> and \<open>\s\<close> see it (below 128), and the strip family.\<close>

definition is_space :: "char \<Rightarrow> bool" where
  "is_space c = (c \<in> set [CHR 0x09, CHR 0x0A, CHR 0x0B, CHR 0x0C, CHR 0x0D,
                            CHR 0x1C, CHR 0x1D, CHR 0x1E, CHR 0x1F, CHR 0x20])"

definition lstrip :: "string \<Rightarrow> string" where
  "lstrip s = dropWhile is_space s"

definition rstrip :: "string \<Rightarrow> string" where
  "rstrip s = rev (dropWhile is_space (rev s))"

definition strip :: "string \<Rightarrow> string" where
  "strip s = rstrip (lstrip s)"

text \<open>\<open>s.lstrip('+')\<close> and \<open>s.count('+')\<close>, for one character.\<close>

definition lstrip_char :: "char \<Rightarrow> string \<Rightarrow> string" where
  "lstrip_char c s = dropWhile (\<lambda>x. x = c) s"

definition count_char :: "char \<Rightarrow> string \<Rightarrow> nat" where
  "count_char c s = length (filter (\<lambda>x. x = c) s)"

text \<open>\<open>html.escape(s)\<close> with its default \<open>quote=True\<close>.\<close>

definition escape_char :: "char \<Rightarrow> string" where
  \<open>escape_char c =
     (if c = CHR ''&'' then ''&amp;''
      else if c = CHR ''<'' then ''&lt;''
      else if c = CHR ''>'' then ''&gt;''
      else if c = CHR 0x22 then ''&quot;''
      else if c = CHR 0x27 then ''&#x27;''
      else [c])\<close>

definition html_escape :: "string \<Rightarrow> string" where
  "html_escape s = concat (map escape_char s)"

text \<open>\<open>str(n)\<close> for a natural number.\<close>

definition digit_char :: "nat \<Rightarrow> char" where
  "digit_char d = ''0123456789'' ! d"

fun str_of_nat :: "nat \<Rightarrow> string" where
  "str_of_nat n = (if n < 10 then [digit_char n] else str_of_nat (n div 10) @ [digit_char (n mod 10)])"

declare str_of_nat.simps [simp del]

subsection \<open>Regular expressions\<close>

text \<open>
  Every pattern of the source is a sequence of literal texts and of repetitions of one
  character class, greedy or lazy, with a minimum of 0 or 1, some of them captured as a
  group. \<open>Dot\<close> is \<open>.\<close> without \<open>re.DOTALL\<close>, \<open>DotAll\<close> is \<open>.\<close> with it.
\<close>

datatype cls = Dot | DotAll | NotChar char | WordC | SpaceC

datatype item = Lit string | Rep cls nat bool bool

definition is_word :: "char \<Rightarrow> bool" where
  "is_word c = (let n = (of_char c :: nat) in
                  (48 \<le> n \<and> n \<le> 57) \<or> (65 \<le> n \<and> n \<le> 90) \<or> (97 \<le> n \<and> n \<le> 122) \<or> n = 95)"

fun cls_ok :: "cls \<Rightarrow> char \<Rightarrow> bool" where
  "cls_ok Dot c = (c \<noteq> CHR 0x0A)"
| "cls_ok DotAll c = True"
| "cls_ok (NotChar d) c = (c \<noteq> d)"
| "cls_ok WordC c = is_word c"
| "cls_ok SpaceC c = is_space c"

definition with_group :: "bool \<Rightarrow> string \<Rightarrow> (string list \<times> string) option \<Rightarrow> (string list \<times> string) option" where
  "with_group cap acc m =
     (case m of None \<Rightarrow> None | Some (gs, r) \<Rightarrow> Some (if cap then rev acc # gs else gs, r))"

text \<open>
  \<open>re_match p s\<close> matches the pattern at the start of \<open>s\<close> as the backtracking matcher
  of \<open>re\<close> does and gives the groups and the text after the match. \<open>Rep c mn greedy cap\<close>
  repeats the class at least \<open>mn\<close> times; a lazy repetition tries the rest of the pattern
  before it takes one more character, a greedy one after. \<open>acc\<close> is the repetition read
  so far, reversed.
\<close>

function re_match :: "item list \<Rightarrow> string \<Rightarrow> (string list \<times> string) option"
  and rep_lazy :: "cls \<Rightarrow> nat \<Rightarrow> bool \<Rightarrow> item list \<Rightarrow> string \<Rightarrow> string \<Rightarrow> (string list \<times> string) option"
  and rep_greedy :: "cls \<Rightarrow> nat \<Rightarrow> bool \<Rightarrow> item list \<Rightarrow> string \<Rightarrow> string \<Rightarrow> (string list \<times> string) option"
where
  "re_match [] s = Some ([], s)"
| "re_match (Lit l # p) s =
     (case strip_prefix l s of None \<Rightarrow> None | Some r \<Rightarrow> re_match p r)"
| "re_match (Rep c mn greedy cap # p) s =
     (if greedy then rep_greedy c mn cap p [] s else rep_lazy c mn cap p [] s)"
| "rep_lazy c mn cap p acc [] =
     (if mn = 0 then with_group cap acc (re_match p []) else None)"
| "rep_lazy c mn cap p acc (x # xs) =
     (case (if mn = 0 then with_group cap acc (re_match p (x # xs)) else None) of
        Some m \<Rightarrow> Some m
      | None \<Rightarrow> if cls_ok c x then rep_lazy c (mn - 1) cap p (x # acc) xs else None)"
| "rep_greedy c mn cap p acc [] =
     (if mn = 0 then with_group cap acc (re_match p []) else None)"
| "rep_greedy c mn cap p acc (x # xs) =
     (case (if cls_ok c x then rep_greedy c (mn - 1) cap p (x # acc) xs else None) of
        Some m \<Rightarrow> Some m
      | None \<Rightarrow> if mn = 0 then with_group cap acc (re_match p (x # xs)) else None)"
  by pat_completeness auto
termination
  by (relation "measures
        [\<lambda>x. case x of Inl (p, s) \<Rightarrow> 2 * length p
                  | Inr (Inl (c, mn, cap, p, acc, s)) \<Rightarrow> 2 * length p + 1
                  | Inr (Inr (c, mn, cap, p, acc, s)) \<Rightarrow> 2 * length p + 1,
         \<lambda>x. case x of Inl (p, s) \<Rightarrow> length s
                  | Inr (Inl (c, mn, cap, p, acc, s)) \<Rightarrow> length s
                  | Inr (Inr (c, mn, cap, p, acc, s)) \<Rightarrow> length s]") auto


text \<open>
  \<open>re.sub(p, f, s)\<close>: the matches are found from left to right, each one starting where
  the one before ended; \<open>f\<close> gets the groups of the match. Every pattern of the source
  starts with a literal text, so that no match is empty; the last branch is what \<open>re\<close>
  does after an empty match.
\<close>

fun re_sub :: "item list \<Rightarrow> (string list \<Rightarrow> string) \<Rightarrow> string \<Rightarrow> string" where
  "re_sub p f [] = []"
| "re_sub p f (x # xs) =
     (case re_match p (x # xs) of
        None \<Rightarrow> x # re_sub p f xs
      | Some (gs, r) \<Rightarrow>
          if length r < length (x # xs) then f gs @ re_sub p f r
          else f gs @ x # re_sub p f xs)"

text \<open>\<open>re.finditer(p, s)\<close>: for every match its whole text (group 0) and its groups.\<close>

fun re_finditer :: "item list \<Rightarrow> string \<Rightarrow> (string \<times> string list) list" where
  "re_finditer p [] = []"
| "re_finditer p (x # xs) =
     (case re_match p (x # xs) of
        None \<Rightarrow> re_finditer p xs
      | Some (gs, r) \<Rightarrow>
          if length r < length (x # xs)
          then (take (length (x # xs) - length r) (x # xs), gs) # re_finditer p r
          else ([], gs) # re_finditer p xs)"

text \<open>\<open>re.search(p, s)\<close>: the groups of the first match.\<close>

fun re_search :: "item list \<Rightarrow> string \<Rightarrow> string list option" where
  "re_search p [] = map_option fst (re_match p [])"
| "re_search p (x # xs) =
     (case re_match p (x # xs) of
        None \<Rightarrow> re_search p xs
      | Some (gs, r) \<Rightarrow> Some gs)"

subsection \<open>The state of one render call\<close>

text \<open>
  \<open>current_page\<close> and \<open>templates\<close> are the fields of the parser object;
  \<open>templates\<close> is what \<open>load_templates\<close> reads from the pages directory. \<open>now\<close> is
  the text of \<open>datetime.now().strftime('%Y-%m-%d %H:%M:%S')\<close> and \<open>py_hash\<close> is
  Python's \<open>hash\<close> on strings, which differs from one process to the next.
\<close>

record render_ctx =
  current_page :: string
  templates :: "string \<rightharpoonup> string"
  now :: string
  py_hash :: "string \<Rightarrow> int"

subsection \<open>The inline engine: \<open>parse_inline\<close>\<close>

definition plantext_pattern :: "item list" where
  "plantext_pattern = [Lit ''<plantext>'', Rep DotAll 0 False True, Lit ''</plantext>'']"

definition small_pattern :: "item list" where
  "small_pattern = [Lit ''<small>'', Rep Dot 0 False True, Lit ''</small>'']"

definition big_pattern :: "item list" where
  "big_pattern = [Lit ''<big>'', Rep Dot 0 False True, Lit ''</big>'']"

definition comment_pattern :: "item list" where
  "comment_pattern = [Lit ''/*'', Rep DotAll 0 False False, Lit ''*/'']"

definition redirect_pattern :: "item list" where
  "redirect_pattern = [Lit ''[[[RD'', Rep SpaceC 1 True False, Rep Dot 1 False True, Lit '']]]'']"

definition page_link_pattern :: "item list" where
  "page_link_pattern = [Lit ''('', Rep (NotChar (CHR '')'')) 1 True True, Lit '')'']"

definition github_link_pattern :: "item list" where
  "github_link_pattern = [Lit ''(github:'', Rep (NotChar (CHR '')'')) 1 True True, Lit '')'']"

definition ghp_pattern :: "item list" where
  "ghp_pattern = [Lit ''(ghp:'', Rep (NotChar (CHR '')'')) 1 True True, Lit '')'']"

definition ext_link_pattern :: "item list" where
  "ext_link_pattern = [Lit ''{{'', Rep (NotChar (CHR ''}'')) 1 True True, Lit ''}}'']"

definition up_pattern :: "item list" where
  "up_pattern = [Lit ''<up>'', Rep Dot 0 False True, Lit ''</up>'']"

definition dn_pattern :: "item list" where
  "dn_pattern = [Lit ''<dn>'', Rep Dot 0 False True, Lit ''</dn>'']"

definition marker :: "nat \<Rightarrow> string" where
  "marker i = ''__PLANTEXT_'' @ str_of_nat i @ ''__''"

text \<open>The loop that puts a marker in the place of every literal-text span.\<close>

fun protect :: "nat \<Rightarrow> (string \<times> string list) list \<Rightarrow> string \<Rightarrow> string" where
  "protect i [] text = text"
| "protect i ((g0, gs) # ms) text = protect (Suc i) ms (replace_first g0 (marker i) text)"

text \<open>The loop that puts the escaped contents back.\<close>

fun restore :: "nat \<Rightarrow> string list \<Rightarrow> string \<Rightarrow> string" where
  "restore i [] text = text"
| "restore i (c # cs) text = restore (Suc i) cs (replace_all (marker i) (html_escape c) text)"

definition redirect_repl :: "string \<Rightarrow> string" where
  \<open>redirect_repl g =
    (let target = strip g in
     ''<script>window.location.href = "/wiki/'' @ target @ ''";</script><p>'' @
     [CHR 0xE6, CHR 0xAD, CHR 0xA3, CHR 0xE5, CHR 0x9C, CHR 0xA8, CHR 0xE9, CHR 0x87, CHR 0x8D,
      CHR 0xE5, CHR 0xAE, CHR 0x9A, CHR 0xE5, CHR 0x90, CHR 0x91, CHR 0xE5, CHR 0x88, CHR 0xB0] @
     '': <a href="/wiki/'' @ target @ ''">'' @ target @ ''</a></p>'')\<close>

definition page_link_repl :: "string \<Rightarrow> string" where
  \<open>page_link_repl page0 =
    (if contains [bsl, bsl] page0 then
       (let (page, display) = split_once page0 [bsl, bsl]
        in ''<a href="/wiki/'' @ page @ ''">'' @ display @ ''</a>'')
     else if contains [bsl] page0 then
       (let (page, display) = split_once page0 [bsl]
        in ''<a href="/wiki/'' @ page @ ''">'' @ display @ ''</a>'')
     else ''<a href="/wiki/'' @ page0 @ ''">'' @ page0 @ ''</a>'')\<close>

definition github_link_repl :: "string \<Rightarrow> string" where
  \<open>github_link_repl content =
    (if contains [bsl, bsl] content then
       (let (repo, display) = split_once content [bsl, bsl]
        in ''<a href="https://github.com/'' @ repo @ ''" target="_blank">'' @ display @ ''</a>'')
     else if contains [bsl] content then
       (let (repo, display) = split_once content [bsl]
        in ''<a href="https://github.com/'' @ repo @ ''" target="_blank">'' @ display @ ''</a>'')
     else ''<a href="https://github.com/'' @ content @ ''" target="_blank">'' @ content @ ''</a>'')\<close>

text \<open>
  \<open>ghp_repl\<close>: the unpacking \<open>user, page = ...split(':')\<close> raises unless the split has
  exactly two parts, and the \<open>except\<close> branch gives the error text.
\<close>

definition ghp_repl :: "string \<Rightarrow> string" where
  \<open>ghp_repl g =
    (case split g '':'' of
       [user, page] \<Rightarrow>
         nl @ ''                <div class="ghp-container">'' @ nl @
         ''                    <iframe src="https://'' @ user @ ''.github.io/'' @ page @ ''" '' @ nl @
         ''                            width="100%" '' @ nl @
         ''                            height="600"'' @ nl @
         ''                            frameborder="0"'' @ nl @
         ''                            allowfullscreen></iframe>'' @ nl @
         ''                </div>'' @ nl @
         ''                ''
     | _ \<Rightarrow>
         ''[GitHub Pages'' @
         [CHR 0xE5, CHR 0xB5, CHR 0x8C, CHR 0xE5, CHR 0x85, CHR 0xA5, CHR 0xE9, CHR 0x94, CHR 0x99,
          CHR 0xE8, CHR 0xAF, CHR 0xAF] @
         '': '' @ g @ '']'')\<close>

definition add_scheme :: "string \<Rightarrow> string" where
  "add_scheme url =
     (if startswith url ''http://'' \<or> startswith url ''https://'' then url else ''https://'' @ url)"

definition ext_link_repl :: "string \<Rightarrow> string" where
  \<open>ext_link_repl content =
    (if contains [bsl, bsl] content then
       (let (url, display) = split_once content [bsl, bsl]
        in ''<a href="'' @ add_scheme url @ ''" target="_blank" rel="noopener noreferrer">'' @
           display @ ''</a>'')
     else if contains [bsl] content then
       (let (url, display) = split_once content [bsl]
        in ''<a href="'' @ add_scheme url @ ''" target="_blank" rel="noopener noreferrer">'' @
           display @ ''</a>'')
     else ''<a href="'' @ add_scheme content @ ''" target="_blank" rel="noopener noreferrer">'' @
          add_scheme content @ ''</a>'')\<close>

text \<open>The rewrite rules between the extraction and the restoration of the literal spans.\<close>

definition inline_rules :: "render_ctx \<Rightarrow> string \<Rightarrow> string" where
  "inline_rules ctx text0 =
    (let text = replace_all ''<br>'' ''<br>'' text0;
         text = re_sub small_pattern (\<lambda>gs. ''<small>'' @ hd gs @ ''</small>'') text;
         text = re_sub big_pattern (\<lambda>gs. ''<big>'' @ hd gs @ ''</big>'') text;
         text = re_sub comment_pattern (\<lambda>gs. []) text;
         text = re_sub redirect_pattern (\<lambda>gs. redirect_repl (hd gs)) text;
         text = re_sub page_link_pattern (\<lambda>gs. page_link_repl (hd gs)) text;
         text = re_sub github_link_pattern (\<lambda>gs. github_link_repl (hd gs)) text;
         text = re_sub ghp_pattern (\<lambda>gs. ghp_repl (hd gs)) text;
         text = re_sub ext_link_pattern (\<lambda>gs. ext_link_repl (hd gs)) text;
         text = re_sub up_pattern (\<lambda>gs. ''<sup>'' @ hd gs @ ''</sup>'') text;
         text = re_sub dn_pattern (\<lambda>gs. ''<sub>'' @ hd gs @ ''</sub>'') text;
         text = replace_all ''<pagename>'' (current_page ctx) text;
         text = replace_all ''<time>'' (now ctx) text
     in text)"

definition parse_inline :: "render_ctx \<Rightarrow> string \<Rightarrow> string" where
  "parse_inline ctx text =
    (let plantext_matches = re_finditer plantext_pattern text;
         plantext_contents = map (\<lambda>(g0, gs). hd gs) plantext_matches;
         text = protect 0 plantext_matches text;
         text = inline_rules ctx text
     in restore 0 plantext_contents text)"

subsection \<open>Headers: \<open>parse_headers\<close>\<close>

definition parse_headers :: "render_ctx \<Rightarrow> string \<Rightarrow> string option" where
  "parse_headers ctx line =
    (if startswith line ''+'' then
       (let level = count_char (CHR ''+'') line;
            text = strip (lstrip_char (CHR ''+'') line)
        in if 1 \<le> level \<and> level \<le> 4
           then Some (''<h'' @ str_of_nat level @ ''>'' @ parse_inline ctx text @ ''</h'' @ str_of_nat level @ ''>'')
           else None)
     else None)"


subsection \<open>Block directives: \<open>parse_template\<close> and the generators\<close>

text \<open>
  The exceptions that can leave the render call. \<open>RecursionError\<close> is what Python raises
  when templates expand one another without end.
\<close>

datatype error = TypeError | AttributeError | RecursionError

text \<open>
  The parameter dictionary of a block. A value is a text (a \<open>key=value\<close> line) or the
  list of rows stored under \<open>_table_data\<close>. The dictionary keeps the order in which the
  keys were first stored, as a Python \<open>dict\<close> does. Rows are stored under the key
  \<open>_table_data\<close> only, and the generators read every other key as a text.
\<close>

datatype pval = PStr string | PRows "string list list"

type_synonym params = "(string \<times> pval) list"

fun dict_set :: "params \<Rightarrow> string \<Rightarrow> pval \<Rightarrow> params" where
  "dict_set [] k v = [(k, v)]"
| "dict_set ((k', v') # d) k v = (if k' = k then (k, v) # d else (k', v') # dict_set d k v)"

definition get_str :: "params \<Rightarrow> string \<Rightarrow> string option" where
  "get_str d k = (case map_of d k of Some (PStr s) \<Rightarrow> Some s | _ \<Rightarrow> None)"

definition get_or :: "params \<Rightarrow> string \<Rightarrow> string \<Rightarrow> string" where
  "get_or d k dflt = (case get_str d k of Some s \<Rightarrow> s | None \<Rightarrow> dflt)"

text \<open>
  The loop over the parameter lines. \<open>params.get('_table_data', []).append(...)\<close> raises
  \<open>AttributeError\<close> when a line \<open>_table_data=...\<close> has stored a text under that key.
\<close>

fun parse_params :: "string list \<Rightarrow> params \<Rightarrow> error + params" where
  "parse_params [] d = Inr d"
| "parse_params (param_line # ls) d =
     (if contains ''='' param_line then
        (let (key, val) = split_once param_line ''=''
         in parse_params ls (dict_set d (strip key) (PStr (strip val))))
      else if param_line \<noteq> [] \<and> contains [bsl, bsl] param_line then
        (case map_of d ''_table_data'' of
           None \<Rightarrow> parse_params ls (dict_set d ''_table_data'' (PRows [split param_line [bsl, bsl]]))
         | Some (PRows rows) \<Rightarrow>
             parse_params ls (dict_set d ''_table_data'' (PRows (rows @ [split param_line [bsl, bsl]])))
         | Some (PStr s) \<Rightarrow> Inl AttributeError)
      else parse_params ls d)"

definition handle_file :: "params \<Rightarrow> string" where
  \<open>handle_file d =
    (case get_str d ''name'' of
       Some filename \<Rightarrow>
         ''<a href="/wiki/files/'' @ filename @ ''" class="file-link">'' @ filename @ ''</a>''
     | None \<Rightarrow>
         ''['' @
         [CHR 0xE6, CHR 0x96, CHR 0x87, CHR 0xE4, CHR 0xBB, CHR 0xB6, CHR 0xE5, CHR 0x8F, CHR 0x82,
          CHR 0xE6, CHR 0x95, CHR 0xB0, CHR 0xE7, CHR 0xBC, CHR 0xBA, CHR 0xE5, CHR 0xA4, CHR 0xB1] @
         '']'')\<close>

text \<open>
  The characters of a text, each one as the bytes of its UTF-8 encoding: a byte and the
  continuation bytes (\<open>0x80\<close> to \<open>0xBF\<close>) that follow it.
\<close>

definition is_continuation :: "char \<Rightarrow> bool" where
  "is_continuation c = (let n = (of_char c :: nat) in 128 \<le> n \<and> n < 192)"

function chars_of :: "string \<Rightarrow> string list" where
  "chars_of [] = []"
| "chars_of (c # cs) = (c # takeWhile is_continuation cs) # chars_of (dropWhile is_continuation cs)"
  by pat_completeness auto
termination
  by (relation "measure length") (auto simp: le_imp_less_Suc length_dropWhile_le)

text \<open>
  \<open>generate_table\<close>. When \<open>_table_data\<close> holds a text (a line \<open>_table_data=...\<close>),
  Python iterates over its characters: every character is a row, and the row, a text of
  one character, has that character as its one cell.
\<close>

definition table_rows :: "pval \<Rightarrow> string list list" where
  "table_rows v = (case v of PRows rows \<Rightarrow> rows | PStr s \<Rightarrow> map (\<lambda>c. [c]) (chars_of s))"

definition generate_table :: "render_ctx \<Rightarrow> params \<Rightarrow> string" where
  \<open>generate_table ctx d =
    (case map_of d ''_table_data'' of
       None \<Rightarrow> []
     | Some v \<Rightarrow>
        (case table_rows v of
           [] \<Rightarrow> []
         | headers # body \<Rightarrow>
             ''<div class="wiki-table">'' @
             (case get_str d ''name'' of
                Some name \<Rightarrow> ''<h4>'' @ html_escape name @ ''</h4>''
              | None \<Rightarrow> []) @
             ''<table>'' @
             ''<thead><tr>'' @
             concat (map (\<lambda>header. ''<th>'' @ html_escape header @ ''</th>'') headers) @
             ''</tr></thead>'' @
             ''<tbody>'' @
             concat (map (\<lambda>row.
                ''<tr>'' @
                concat (map (\<lambda>cell. ''<td>'' @ parse_inline ctx (html_escape cell) @ ''</td>'') row) @
                ''</tr>'') body) @
             ''</tbody>'' @
             ''</table></div>''))\<close>

definition navbox_subgroup :: "render_ctx \<Rightarrow> params \<Rightarrow> nat \<Rightarrow> nat \<Rightarrow> string" where
  \<open>navbox_subgroup ctx d i j =
    (let sub_group_key = ''g'' @ str_of_nat i @ ''.'' @ str_of_nat j;
         sub_list_key = ''l'' @ str_of_nat i @ ''.'' @ str_of_nat j
     in case get_str d sub_group_key of
          None \<Rightarrow> []
        | Some grp \<Rightarrow>
            nl @ ''                        <div class="navbox-subgroup">'' @ nl @
            ''                            <div class="navbox-subgroup-title">'' @ grp @ ''</div>'' @ nl @
            ''                            <div class="navbox-subgroup-content">'' @ nl @
            ''                                '' @ parse_inline ctx (get_or d sub_list_key []) @ nl @
            ''                            </div>'' @ nl @
            ''                        </div>'' @ nl @
            ''                        '')\<close>

definition navbox_group :: "render_ctx \<Rightarrow> params \<Rightarrow> nat \<Rightarrow> string" where
  \<open>navbox_group ctx d i =
    (let group_key = ''g'' @ str_of_nat i;
         list_key = ''l'' @ str_of_nat i
     in case get_str d group_key of
          None \<Rightarrow> []
        | Some grp \<Rightarrow>
            nl @ ''                <div class="navbox-group">'' @ nl @
            ''                    <div class="navbox-group-title" style="background:'' @
            get_or d ''color2'' ''#e8f2ff'' @ ''">'' @ nl @
            ''                        '' @ grp @ nl @
            ''                    </div>'' @ nl @
            ''                    <div class="navbox-content">'' @ nl @
            ''                        '' @ parse_inline ctx (get_or d list_key []) @ nl @
            ''                '' @
            concat (map (navbox_subgroup ctx d i) [1, 2]) @
            ''</div></div>'')\<close>

definition generate_navbox :: "render_ctx \<Rightarrow> params \<Rightarrow> string" where
  \<open>generate_navbox ctx d =
     nl @ ''        <div class="navbox">'' @ nl @
     ''            <div class="navbox-title" style="background:'' @ get_or d ''color'' ''#cfe3ff'' @ ''">'' @ nl @
     ''                <span>'' @
     get_or d ''name'' [CHR 0xE5, CHR 0xAF, CHR 0xBC, CHR 0xE8, CHR 0x88, CHR 0xAA] @
     ''</span>'' @ nl @
     ''            </div>'' @ nl @
     ''        '' @
     concat (map (navbox_group ctx d) [1, 2, 3, 4, 5, 6, 7, 8, 9, 10]) @
     ''</div>''\<close>

text \<open>
  \<open>process_custom_template\<close>. \<open>str.replace\<close> raises \<open>TypeError\<close> when the value is the
  list of rows. \<open>render\<close> is the recursive call of \<open>parse_to_html\<close> with the current
  page title.
\<close>

fun subst_named :: "params \<Rightarrow> string \<Rightarrow> error + string" where
  "subst_named [] template_content = Inr template_content"
| "subst_named ((key, PStr val) # d) template_content =
     subst_named d (replace_all (''<;'' @ key @ '';>'') val template_content)"
| "subst_named ((key, PRows rows) # d) template_content = Inl TypeError"

fun subst_positional :: "params \<Rightarrow> nat list \<Rightarrow> string \<Rightarrow> string" where
  "subst_positional d [] template_content = template_content"
| "subst_positional d (i # is) template_content =
     subst_positional d is
       (if contains (''<;'' @ str_of_nat i @ '';>'') template_content
        then replace_all (''<;'' @ str_of_nat i @ '';>'') (get_or d (str_of_nat i) []) template_content
        else template_content)"

definition process_custom_template ::
  "(string \<Rightarrow> error + string) \<Rightarrow> render_ctx \<Rightarrow> string \<Rightarrow> params \<Rightarrow> error + string" where
  "process_custom_template render ctx template_name d =
    (case templates ctx template_name of
       None \<Rightarrow>
         Inr (''['' @ [CHR 0xE6, CHR 0xA8, CHR 0xA1, CHR 0xE6, CHR 0x9D, CHR 0xBF] @ '' '' @
              template_name @ '' '' @
              [CHR 0xE6, CHR 0x9C, CHR 0xAA, CHR 0xE6, CHR 0x89, CHR 0xBE, CHR 0xE5, CHR 0x88, CHR 0xB0] @
              '']'')
     | Some template_content \<Rightarrow>
         (case subst_named d template_content of
            Inl e \<Rightarrow> Inl e
          | Inr template_content \<Rightarrow>
              render (subst_positional d [1, 2, 3, 4, 5, 6, 7, 8, 9] template_content)))"

definition template_pattern :: "item list" where
  "template_pattern = [Lit ''['', Rep WordC 1 True True, Rep DotAll 0 False True, Lit '']'']"

text \<open>
  The scan for the closing line, from the line of the block on: the offset of the first
  line that is \<open>]\<close> after \<open>strip\<close>.
\<close>

fun find_close :: "string list \<Rightarrow> nat option" where
  "find_close [] = None"
| "find_close (l # ls) =
     (if strip l = '']'' then Some 0 else map_option Suc (find_close ls))"

text \<open>
  \<open>parse_template(lines, start_idx)\<close>, on the lines from \<open>start_idx\<close> on. The result is
  the rendered block, if the line starts one, and \<open>template_end - start_idx\<close>.
\<close>

definition parse_template ::
  "(string \<Rightarrow> error + string) \<Rightarrow> render_ctx \<Rightarrow> string list \<Rightarrow> error + (string option \<times> nat)" where
  "parse_template render ctx lines =
    (let line = hd lines in
     if startswith line ''['' \<and> \<not> startswith line ''[['' then
       (let template_end = (case find_close lines of Some i \<Rightarrow> i | None \<Rightarrow> 0);
            template_lines = take (template_end + 1) lines;
            template_content = join nl template_lines
        in case re_match template_pattern template_content of
             Some ([template_name, g2], r) \<Rightarrow>
               (case parse_params (split (strip g2) nl) [] of
                  Inl e \<Rightarrow> Inl e
                | Inr d \<Rightarrow>
                    if template_name = ''table'' then Inr (Some (generate_table ctx d), template_end)
                    else if template_name = ''navbox'' then Inr (Some (generate_navbox ctx d), template_end)
                    else if template_name = ''file'' then Inr (Some (handle_file d), template_end)
                    else if templates ctx template_name \<noteq> None then
                      (case process_custom_template render ctx template_name d of
                         Inl e \<Rightarrow> Inl e
                       | Inr out \<Rightarrow> Inr (Some out, template_end))
                    else Inr (Some template_content, template_end))
           | _ \<Rightarrow> Inr (Some template_content, template_end))
     else Inr (None, 0))"


subsection \<open>The special tags: \<open>parse_special_tags\<close>\<close>

definition style_pattern :: "item list" where
  "style_pattern = [Lit ''<style>'', Rep DotAll 0 False True, Lit ''</style>'']"

definition script_pattern :: "item list" where
  "script_pattern = [Lit ''<script>'', Rep DotAll 0 False True, Lit ''</script>'']"

definition iframe_pattern :: "item list" where
  \<open>iframe_pattern =
     [Lit ''<iframe src="'', Rep (NotChar (CHR 0x22)) 1 True True, Lit ''">'',
      Rep DotAll 0 False False, Lit ''</iframe>'']\<close>

definition img_pattern :: "item list" where
  \<open>img_pattern =
     [Lit ''<img src="'', Rep (NotChar (CHR 0x22)) 1 True True, Lit ''">'',
      Rep DotAll 0 False False, Lit ''</img>'']\<close>

definition button_pattern :: "item list" where
  \<open>button_pattern =
     [Lit ''<button'', Rep Dot 0 False True, Rep SpaceC 0 True False, Lit ''"touchEvent"="'',
      Rep (NotChar (CHR 0x22)) 0 True True, Lit ''"'', Rep (NotChar (CHR ''>'')) 0 True False,
      Lit ''>'', Rep Dot 0 False True, Lit ''</button>'']\<close>

definition attr_style_pattern :: "item list" where
  \<open>attr_style_pattern = [Lit ''style="'', Rep (NotChar (CHR 0x22)) 0 True True, Lit ''"'']\<close>

definition code_pattern :: "item list" where
  \<open>code_pattern =
     [Lit ''<code lang="'', Rep (NotChar (CHR 0x22)) 0 True True, Lit ''">'',
      Rep DotAll 0 False True, Lit ''</code>'']\<close>

definition co_pattern :: "item list" where
  "co_pattern = [Lit ''<co>'', Rep DotAll 0 False True, Lit ''</co>'']"

definition mw_pattern :: "item list" where
  "mw_pattern = [Lit ''<mw>'', Rep DotAll 0 False True, Lit ''</mw>'']"

definition doc_pattern :: "item list" where
  "doc_pattern = [Lit ''<doc>'', Rep DotAll 0 False False, Lit ''</doc>'']"

text \<open>\<open>hash(s) % 10000\<close> as a text; Python's \<open>%\<close> with a positive modulus is never negative.\<close>

definition hash_id :: "render_ctx \<Rightarrow> string \<Rightarrow> string" where
  "hash_id ctx s = str_of_nat (nat (py_hash ctx s mod 10000))"

definition script_repl :: "string \<Rightarrow> string" where
  \<open>script_repl script_content =
     nl @ ''            <div class="script-container">'' @ nl @
     ''                <button class="script-run-btn" onclick="runScript(this)">'' @
     [CHR 0xE8, CHR 0xBF, CHR 0x90, CHR 0xE8, CHR 0xA1, CHR 0x8C, CHR 0xE8, CHR 0x84, CHR 0x9A,
      CHR 0xE6, CHR 0x9C, CHR 0xAC] @
     ''</button>'' @ nl @
     ''                <div class="script-output" style="display:none;">'' @ nl @
     ''                    <iframe sandbox="allow-scripts" '' @ nl @
     ''                            srcdoc="<!DOCTYPE html><html><head><script>'' @
     html_escape script_content @
     ''</script></head><body></body></html>"'' @ nl @
     ''                            width="100%" '' @ nl @
     ''                            height="200"></iframe>'' @ nl @
     ''                </div>'' @ nl @
     ''            </div>'' @ nl @
     ''            ''\<close>

definition iframe_repl :: "string \<Rightarrow> string" where
  \<open>iframe_repl src =
     nl @ ''            <div class="iframe-container">'' @ nl @
     ''                <iframe src="'' @ src @ ''" '' @ nl @
     ''                        width="100%" '' @ nl @
     ''                        height="500"'' @ nl @
     ''                        frameborder="0"'' @ nl @
     ''                        allowfullscreen></iframe>'' @ nl @
     ''            </div>'' @ nl @
     ''            ''\<close>

definition img_repl :: "string \<Rightarrow> string" where
  \<open>img_repl src = ''<img src="'' @ src @ ''" class="wiki-image">''\<close>

definition button_repl :: "render_ctx \<Rightarrow> string list \<Rightarrow> string" where
  \<open>button_repl ctx gs =
    (let button_text = gs ! 2;
         attrs = gs ! 0;
         touch_event = gs ! 1;
         style = (case re_search attr_style_pattern attrs of Some g \<Rightarrow> hd g | None \<Rightarrow> []);
         button_id = ''btn_'' @ hash_id ctx (button_text @ touch_event)
     in nl @ ''            <button id="'' @ button_id @ ''" class="wiki-button" style="'' @ style @
        ''">'' @ button_text @ ''</button>'' @ nl @
        ''            <script>'' @ nl @
        ''                document.getElementById('' @ [apostrophe] @ button_id @ [apostrophe] @
        '').addEventListener('' @ [apostrophe] @ ''click'' @ [apostrophe] @ '', function() {'' @ nl @
        ''                    var output = document.createElement('' @ [apostrophe] @ ''div'' @
        [apostrophe] @ '');'' @ nl @
        ''                    output.className = '' @ [apostrophe] @ ''button-output'' @ [apostrophe] @
        '';'' @ nl @
        ''                    output.innerHTML = `'' @ parse_inline ctx touch_event @ ''`;'' @ nl @
        ''                    this.parentNode.insertBefore(output, this.nextSibling);'' @ nl @
        ''                });'' @ nl @
        ''            </script>'' @ nl @
        ''            '')\<close>

definition code_repl :: "string list \<Rightarrow> string" where
  \<open>code_repl gs =
    (let lang = gs ! 0;
         code_content = gs ! 1
     in ''<pre><code class="language-'' @ lang @ ''">'' @ html_escape code_content @ ''</code></pre>'')\<close>

definition co_repl :: "render_ctx \<Rightarrow> string \<Rightarrow> string" where
  \<open>co_repl ctx content =
    (let co_id = ''co_'' @ hash_id ctx content
     in nl @ ''            <div class="collapsible">'' @ nl @
        ''                <button class="collapsible-btn" onclick="toggleCollapse('' @ [apostrophe] @
        co_id @ [apostrophe] @ '')">'' @
        [CHR 0xE6, CHR 0x98, CHR 0xBE, CHR 0xE7, CHR 0xA4, CHR 0xBA] @ ''/'' @
        [CHR 0xE9, CHR 0x9A, CHR 0x90, CHR 0xE8, CHR 0x97, CHR 0x8F, CHR 0xE5, CHR 0x86, CHR 0x85,
         CHR 0xE5, CHR 0xAE, CHR 0xB9] @
        ''</button>'' @ nl @
        ''                <div id="'' @ co_id @ ''" class="collapsible-content">'' @ nl @
        ''                    '' @ parse_inline ctx content @ nl @
        ''                </div>'' @ nl @
        ''            </div>'' @ nl @
        ''            '')\<close>

definition mw_repl :: "string \<Rightarrow> string" where
  \<open>mw_repl mw_content = ''<div class="mw-content">'' @ html_escape mw_content @ ''</div>''\<close>

definition parse_special_tags :: "render_ctx \<Rightarrow> string \<Rightarrow> string" where
  "parse_special_tags ctx text0 =
    (let text = re_sub style_pattern (\<lambda>gs. ''<style>'' @ hd gs @ ''</style>'') text0;
         text = re_sub script_pattern (\<lambda>gs. script_repl (hd gs)) text;
         text = re_sub iframe_pattern (\<lambda>gs. iframe_repl (hd gs)) text;
         text = re_sub img_pattern (\<lambda>gs. img_repl (hd gs)) text;
         text = re_sub button_pattern (button_repl ctx) text;
         text = re_sub code_pattern code_repl text;
         text = re_sub co_pattern (\<lambda>gs. co_repl ctx (hd gs)) text;
         text = re_sub mw_pattern (\<lambda>gs. mw_repl (hd gs)) text;
         text = re_sub doc_pattern (\<lambda>gs. []) text
     in text)"

subsection \<open>The pipeline driver: \<open>parse_to_html\<close>\<close>

text \<open>
  The \<open>while\<close> loop over the lines, on the lines from index \<open>i\<close> on; the result is
  what the loop appends to \<open>html_output\<close>. An exception ends the loop.
\<close>

fun render_lines ::
  "(string \<Rightarrow> error + string) \<Rightarrow> render_ctx \<Rightarrow> string list \<Rightarrow> error + string list" where
  "render_lines render ctx [] = Inr []"
| "render_lines render ctx (l # ls) =
    (let line = rstrip l in
     if strip line = [] then
       (case render_lines render ctx ls of Inl e \<Rightarrow> Inl e | Inr out \<Rightarrow> Inr ([] # out))
     else
       (case parse_headers ctx line of
          Some header \<Rightarrow>
            (case render_lines render ctx ls of Inl e \<Rightarrow> Inl e | Inr out \<Rightarrow> Inr (header # out))
        | None \<Rightarrow>
           (case parse_template render ctx (l # ls) of
              Inl e \<Rightarrow> Inl e
            | Inr (Some template_result, new_i) \<Rightarrow>
                (case render_lines render ctx (drop new_i ls) of
                   Inl e \<Rightarrow> Inl e
                 | Inr out \<Rightarrow> Inr (template_result # out))
            | Inr (None, new_i) \<Rightarrow>
                (case render_lines render ctx ls of
                   Inl e \<Rightarrow> Inl e
                 | Inr out \<Rightarrow> Inr ((''<p>'' @ parse_inline ctx line @ ''</p>'') # out)))))"

definition render_text :: "(string \<Rightarrow> error + string) \<Rightarrow> render_ctx \<Rightarrow> string \<Rightarrow> error + string" where
  "render_text render ctx text0 =
    (let text = re_sub comment_pattern (\<lambda>gs. []) text0;
         lines = split text nl
     in case render_lines render ctx lines of
          Inl e \<Rightarrow> Inl e
        | Inr html_output \<Rightarrow> Inr (parse_special_tags ctx (join nl html_output)))"

text \<open>
  \<open>parse_to_html(text, page_name)\<close>. The first argument bounds the depth of the calls
  that custom templates make back into \<open>parse_to_html\<close>: at depth 0 the call stack of
  Python is exhausted. \<open>ctx\<close> holds the templates that \<open>load_templates\<close> finds.
\<close>

primrec parse_to_html :: "nat \<Rightarrow> render_ctx \<Rightarrow> string \<Rightarrow> string \<Rightarrow> error + string" where
  "parse_to_html 0 ctx text page_name = Inl RecursionError"
| "parse_to_html (Suc depth) ctx text page_name =
     render_text (\<lambda>template_content. parse_to_html depth ctx template_content page_name)
       (ctx\<lparr>current_page := page_name\<rparr>) text"


subsection \<open>Example inputs\<close>

text \<open>A render context with an empty template store, and one that stores a template.\<close>

definition no_templates :: "string \<rightharpoonup> string" where
  "no_templates = Map.empty"

definition const_hash :: "string \<Rightarrow> int" where
  "const_hash s = 42"

definition plain_ctx :: render_ctx where
  "plain_ctx = \<lparr>current_page = ''Home'', templates = no_templates,
                 now = ''2024-01-01 00:00:00'', py_hash = const_hash\<rparr>"

definition tpl_ctx :: "string \<Rightarrow> render_ctx" where
  "tpl_ctx body = \<lparr>current_page = ''Home'', templates = no_templates(''MyTpl'' \<mapsto> body),
                    now = ''2024-01-01 00:00:00'', py_hash = const_hash\<rparr>"

text \<open>The text \<open>a\\b\<close> of a row line: two cells with the double backslash between them.\<close>

definition row2 :: "string \<Rightarrow> string \<Rightarrow> string" where
  "row2 a b = a @ [bsl, bsl] @ b"



subsection \<open>Texts of the statements\<close>

text \<open>
  The statements below that hold for every text of some shape take the text from the
  ASCII characters, where the character classes above are those of Python. A plain
  character is a word character, a space or one of the listed punctuation marks: no
  rule of the inline engine, of the block parser or of the special tags starts at one,
  and HTML-escaping a plain text gives a plain text.
\<close>

definition ascii :: "char \<Rightarrow> bool" where
  "ascii c = ((of_char c :: nat) < 128)"

definition plain_char :: "char \<Rightarrow> bool" where
  "plain_char c = (is_word c \<or> c \<in> set '' &>#.,:;!?-'' \<or> c = CHR 0x22 \<or> c = apostrophe)"

text \<open>
  \<open>no_start l u\<close>: no occurrence of the literal \<open>l\<close> starts inside \<open>u\<close>, whatever text
  follows \<open>u\<close>: no rest of \<open>u\<close> starts with \<open>l\<close> or is the start of \<open>l\<close>. \<open>tag_openers\<close> are
  the literals that the patterns of \<open>parse_special_tags\<close> start with, and in an inert text
  none of them starts.
\<close>

fun no_start :: "string \<Rightarrow> string \<Rightarrow> bool" where
  "no_start l [] = True"
| "no_start l (x # xs) =
     (strip_prefix l (x # xs) = None \<and> strip_prefix (x # xs) l = None \<and> no_start l xs)"

definition tag_openers :: "string list" where
  \<open>tag_openers = [''<style>'', ''<script>'', ''<iframe src="'', ''<img src="'', ''<button'',
                   ''<code lang="'', ''<co>'', ''<mw>'', ''<doc>'']\<close>

definition inert :: "string \<Rightarrow> bool" where
  "inert u = list_all (\<lambda>l. no_start l u) tag_openers"

section \<open>Properties\<close>

subsection \<open>Text that a rule passes over\<close>

text \<open>
  Every pattern of the source starts with a literal text. A stretch of text without the
  first character of that literal holds no start of a match: substitution, search and
  splitting pass over it, and a lazy repetition that waits for the literal runs through it.
\<close>

lemma re_sub_skip:
  "c \<notin> set u \<Longrightarrow> re_sub (Lit (c # l) # p) f (u @ v) = u @ re_sub (Lit (c # l) # p) f v"
  by (induction u) auto

lemma re_sub_skip_all:
  "c \<notin> set u \<Longrightarrow> re_sub (Lit (c # l) # p) f u = u"
  using re_sub_skip [of c u l p f "[]"] by simp

lemma re_finditer_skip:
  "c \<notin> set u \<Longrightarrow> re_finditer (Lit (c # l) # p) (u @ v) = re_finditer (Lit (c # l) # p) v"
  by (induction u) auto

lemma re_finditer_skip_all:
  "c \<notin> set u \<Longrightarrow> re_finditer (Lit (c # l) # p) u = []"
  using re_finditer_skip [of c u l p "[]"] by simp

lemma replace_all_skip:
  "c \<notin> set u \<Longrightarrow> replace_all (c # l) new (u @ v) = u @ replace_all (c # l) new v"
  by (induction u) auto

lemma replace_all_skip_all:
  "c \<notin> set u \<Longrightarrow> replace_all (c # l) new u = u"
  using replace_all_skip [of c u l new "[]"] by simp

lemma contains_skip:
  "c \<notin> set u \<Longrightarrow> contains (c # l) (u @ v) = contains (c # l) v"
  by (induction u) auto

lemma contains_skip_all:
  "c \<notin> set u \<Longrightarrow> \<not> contains (c # l) u"
  using contains_skip [of c u l "[]"] by simp



lemma rep_lazy_skip:
  "c \<notin> set u \<Longrightarrow> list_all (cls_ok k) u \<Longrightarrow>
   rep_lazy k mn cap (Lit (c # l) # p) acc (u @ v)
     = rep_lazy k (mn - length u) cap (Lit (c # l) # p) (rev u @ acc) v"
  by (induction u arbitrary: mn acc) (auto simp: with_group_def)


lemma rep_greedy_run:
  "list_all (cls_ok k) u \<Longrightarrow> v = [] \<or> \<not> cls_ok k (hd v) \<Longrightarrow> mn \<le> length u \<Longrightarrow>
   re_match p v = Some m \<Longrightarrow>
   rep_greedy k mn cap p acc (u @ v) = with_group cap (rev u @ acc) (Some m)"
proof (induction u arbitrary: mn acc)
  case Nil
  then show ?case by (cases v) auto
next
  case (Cons x xs)
  have "rep_greedy k (mn - 1) cap p (x # acc) (xs @ v) = with_group cap (rev xs @ x # acc) (Some m)"
    using Cons.prems by (intro Cons.IH) auto
  then show ?case using Cons.prems by (cases m) (auto simp: with_group_def)
qed

subsection \<open>Splitting into lines and joining\<close>

lemma split_acc_nonempty: "split_acc sep acc s \<noteq> []"
  by (induction sep acc s rule: split_acc.induct) (auto split: option.splits)

lemma join_split_acc: "join [c] (split_acc [c] acc s) = rev acc @ s"
proof (induction s arbitrary: acc)
  case Nil
  then show ?case by simp
next
  case (Cons x xs)
  show ?case
  proof (cases "x = c")
    case True
    then have "split_acc [c] acc (x # xs) = rev acc # split_acc [c] [] xs" by simp
    moreover obtain y ys where "split_acc [c] [] xs = y # ys"
      using split_acc_nonempty [of "[c]" "[]" xs] by (cases "split_acc [c] [] xs") auto
    ultimately show ?thesis using Cons.IH [of "[]"] True by simp
  next
    case False
    then show ?thesis using Cons.IH [of "x # acc"] by simp
  qed
qed

lemma join_split: "join nl (split s nl) = s"
  using join_split_acc [of "CHR 0x0A" "[]" s] by (simp add: split_def nl_def)

lemma split_acc_append:
  "split_acc [c] acc (a @ c # b) = split_acc [c] acc a @ split_acc [c] [] b"
  by (induction a arbitrary: acc) auto

lemma split_append: "split (a @ nl @ b) nl = split a nl @ split b nl"
  using split_acc_append [of "CHR 0x0A" "[]" a b] by (simp add: split_def nl_def)

lemma hd_split_acc: "hd (split_acc [c] acc s) = rev acc @ takeWhile (\<lambda>x. x \<noteq> c) s"
  by (induction s arbitrary: acc) auto

lemma hd_split: "hd (split s nl) = takeWhile (\<lambda>x. x \<noteq> CHR 0x0A) s"
  using hd_split_acc [of "CHR 0x0A" "[]" s] by (simp add: split_def nl_def)

lemma split_nonempty: "split s sep \<noteq> []"
  by (simp add: split_def split_acc_nonempty)

lemma set_split_acc: "l \<in> set (split_acc [c] acc s) \<Longrightarrow> set l \<subseteq> set acc \<union> set s"
proof (induction s arbitrary: acc)
  case Nil
  then show ?case by auto
next
  case (Cons x xs)
  show ?case
  proof (cases "x = c")
    case True
    then have "l = rev acc \<or> l \<in> set (split_acc [c] [] xs)" using Cons.prems by auto
    then show ?thesis using Cons.IH [of "[]"] by auto
  next
    case False
    then have "l \<in> set (split_acc [c] (x # acc) xs)" using Cons.prems by auto
    then show ?thesis using Cons.IH [of "x # acc"] by auto
  qed
qed

lemma set_split: "l \<in> set (split s nl) \<Longrightarrow> set l \<subseteq> set s"
  using set_split_acc [of l "CHR 0x0A" "[]" s] by (simp add: split_def nl_def)

lemma set_strip: "set (strip s) \<subseteq> set s"
proof -
  have "set (rstrip s) \<subseteq> set s" for s
    using set_dropWhileD [of _ is_space "rev s"] by (auto simp: rstrip_def)
  moreover have "set (lstrip s) \<subseteq> set s"
    using set_dropWhileD [of _ is_space s] by (auto simp: lstrip_def)
  ultimately show ?thesis unfolding strip_def by blast
qed

subsection \<open>The closing line\<close>

lemma find_close_last:
  "\<forall>l\<in>set ls. CHR '']'' \<notin> set l \<Longrightarrow> find_close (ls @ ['']'']) = Some (length ls)"
proof (induction ls)
  case Nil
  have "strip '']'' = '']''" by (simp add: strip_def lstrip_def rstrip_def is_space_def)
  then show ?case by simp
next
  case (Cons l ls)
  have "strip l \<noteq> '']''"
  proof
    assume "strip l = '']''"
    then have "CHR '']'' \<in> set (strip l)" by simp
    then show False using set_strip [of l] Cons.prems by auto
  qed
  then show ?case using Cons by simp
qed

subsection \<open>Parameter lines without rows\<close>

lemma contains_hd_in: "contains (c # l) s \<Longrightarrow> c \<in> set s"
  by (induction s) (auto split: if_splits)

lemma parse_params_no_rows:
  "\<forall>l\<in>set ls. bsl \<notin> set l \<Longrightarrow> \<exists>d'. parse_params ls d = Inr d'"
proof (induction ls arbitrary: d)
  case Nil
  then show ?case by simp
next
  case (Cons l ls)
  have "\<not> contains [bsl, bsl] l" using Cons.prems contains_hd_in [of bsl "[bsl]" l] by auto
  then show ?case using Cons by (auto simp: Let_def split: prod.splits)
qed

subsection \<open>Block directives\<close>

lemma word_not_in: "list_all is_word t \<Longrightarrow> \<not> is_word c \<Longrightarrow> c \<notin> set t"
  by (auto simp: list_all_iff)

lemmas pattern_defs = plantext_pattern_def small_pattern_def big_pattern_def comment_pattern_def redirect_pattern_def
  page_link_pattern_def github_link_pattern_def ghp_pattern_def ext_link_pattern_def up_pattern_def dn_pattern_def
  template_pattern_def style_pattern_def script_pattern_def iframe_pattern_def img_pattern_def button_pattern_def
  attr_style_pattern_def code_pattern_def co_pattern_def mw_pattern_def doc_pattern_def

lemma rstrip_Cons_nonspace: "\<not> is_space c \<Longrightarrow> rstrip (c # s) = c # rstrip s"
  by (simp add: rstrip_def dropWhile_append)

lemma lstrip_Cons_nonspace: "\<not> is_space c \<Longrightarrow> lstrip (c # s) = c # s"
  by (simp add: lstrip_def)

lemma startswith_bracket: "startswith line ''['' \<Longrightarrow> \<exists>rest. line = CHR ''['' # rest"
  by (cases line) (auto simp: startswith_def split: if_splits)

lemma bracket_nonspace: "\<not> is_space (CHR ''['')"
  by (simp add: is_space_def)

lemma block_line_not_blank: "startswith line ''['' \<Longrightarrow> strip (rstrip line) \<noteq> []"
  using startswith_bracket [of line]
  by (auto simp: strip_def rstrip_Cons_nonspace lstrip_Cons_nonspace bracket_nonspace)

lemma block_line_no_header: "startswith line ''['' \<Longrightarrow> parse_headers ctx (rstrip line) = None"
  using startswith_bracket [of line]
  by (auto simp: parse_headers_def startswith_def rstrip_Cons_nonspace bracket_nonspace)

lemma special_tags_none: "CHR ''<'' \<notin> set s \<Longrightarrow> parse_special_tags ctx s = s"
  by (simp add: parse_special_tags_def pattern_defs re_sub_skip_all)

lemma comments_none: "CHR ''/'' \<notin> set s \<Longrightarrow> re_sub comment_pattern f s = s"
  by (simp add: comment_pattern_def re_sub_skip_all)

lemma directive_match:
  assumes ne: "name \<noteq> []" and w: "list_all is_word name"
    and hd_u: "u = [] \<or> \<not> is_word (hd u)" and nb: "CHR '']'' \<notin> set u"
  shows "re_match template_pattern (''['' @ name @ u @ nl @ '']'') = Some ([name, u @ nl], [])"
proof -
  let ?p = "[Rep DotAll 0 False True, Lit '']'']"
  let ?v = "u @ nl @ '']''"
  have "rep_lazy DotAll 0 True [Lit '']''] [] ((u @ nl) @ '']'')
          = rep_lazy DotAll (0 - length (u @ nl)) True [Lit '']''] (rev (u @ nl) @ []) '']''"
    using nb by (intro rep_lazy_skip) (auto simp: nl_def list_all_iff)
  then have m: "re_match ?p ?v = Some ([u @ nl], [])"
    by (simp add: with_group_def)
  have stop: "?v = [] \<or> \<not> cls_ok WordC (hd ?v)"
    using hd_u by (cases u) (auto simp: nl_def is_word_def)
  have "rep_greedy WordC 1 True ?p [] (name @ ?v) = with_group True (rev name @ []) (Some ([u @ nl], []))"
    using w ne stop m by (intro rep_greedy_run) (auto simp: list_all_iff Suc_le_eq)
  then show ?thesis by (simp add: template_pattern_def with_group_def)
qed

lemma block_dispatch:
  assumes ne: "name \<noteq> []" and w: "list_all is_word name"
    and hd_u: "u = [] \<or> \<not> is_word (hd u)" and nb: "CHR '']'' \<notin> set u"
  shows "render_lines render ctx (split (''['' @ name @ u @ nl @ '']'') nl) =
     (case parse_params (split (strip (u @ nl)) nl) [] of
        Inl e \<Rightarrow> Inl e
      | Inr d \<Rightarrow>
          if name = ''table'' then Inr [generate_table ctx d]
          else if name = ''navbox'' then Inr [generate_navbox ctx d]
          else if name = ''file'' then Inr [handle_file d]
          else if templates ctx name \<noteq> None then
            (case process_custom_template render ctx name d of
               Inl e \<Rightarrow> Inl e
             | Inr out \<Rightarrow> Inr [out])
          else Inr [''['' @ name @ u @ nl @ '']''])"
proof -
  let ?text = "''['' @ name @ u @ nl @ '']''"
  let ?body = "split (''['' @ name @ u) nl"
  have n_no: "CHR '']'' \<notin> set name"
    using word_not_in [OF w] by (simp add: is_word_def)
  have "split '']'' nl = ['']'']" by (simp add: split_def nl_def)
  then have lines: "split ?text nl = ?body @ ['']'']"
    using split_append [of "''['' @ name @ u" "'']''"] by simp
  obtain n ns where name: "name = n # ns" using ne by (cases name) auto
  have n_word: "is_word n" using w name by simp
  have "hd ?body = takeWhile (\<lambda>x. x \<noteq> CHR 0x0A) (''['' @ name @ u)"
    by (rule hd_split)
  moreover have "n \<noteq> CHR 0x0A" "n \<noteq> CHR ''[''" using n_word by (auto simp: is_word_def)
  ultimately have hd_body: "hd ?body = CHR ''['' # n # takeWhile (\<lambda>x. x \<noteq> CHR 0x0A) (ns @ u)"
    and n_nb: "n \<noteq> CHR ''[''"
    by (simp_all add: name)
  obtain l ls where body: "?body = l # ls"
    using split_nonempty [of "''['' @ name @ u" nl] by (cases ?body) auto
  have l: "l = CHR ''['' # n # takeWhile (\<lambda>x. x \<noteq> CHR 0x0A) (ns @ u)"
    using hd_body body by simp
  have open_l: "startswith l ''[''" and not_link: "\<not> startswith l ''[[''"
    using n_nb by (simp_all add: l startswith_def)
  have no_close: "\<forall>l'\<in>set ?body. CHR '']'' \<notin> set l'"
    using set_split [of _ "''['' @ name @ u"] nb n_no by auto
  have close: "find_close (l # ls @ ['']'']) = Some (length (l # ls))"
    using find_close_last [OF no_close] body by simp
  have joined: "join nl (l # ls @ ['']'']) = ?text"
    using join_split [of ?text] lines body by simp
  have matched: "re_match template_pattern ?text = Some ([name, u @ nl], [])"
    using directive_match [OF ne w hd_u nb] .
  have block: "parse_template render ctx (l # ls @ ['']'']) =
     (case parse_params (split (strip (u @ nl)) nl) [] of
        Inl e \<Rightarrow> Inl e
      | Inr d \<Rightarrow>
          if name = ''table'' then Inr (Some (generate_table ctx d), length (l # ls))
          else if name = ''navbox'' then Inr (Some (generate_navbox ctx d), length (l # ls))
          else if name = ''file'' then Inr (Some (handle_file d), length (l # ls))
          else if templates ctx name \<noteq> None then
            (case process_custom_template render ctx name d of
               Inl e \<Rightarrow> Inl e
             | Inr out \<Rightarrow> Inr (Some out, length (l # ls)))
          else Inr (Some ?text, length (l # ls)))"
    using open_l not_link close joined matched by (simp add: parse_template_def split: sum.splits)
  show ?thesis
    unfolding lines body
    using block_line_not_blank [OF open_l] block_line_no_header [OF open_l, of ctx] block
    by (simp split: sum.splits)
qed

subsection \<open>Text in which a literal does not start\<close>

lemma strip_prefix_apart:
  "strip_prefix l s = None \<Longrightarrow> strip_prefix s l = None \<Longrightarrow>
   strip_prefix l (s @ v) = None \<and> strip_prefix (s @ v) l = None"
  by (induction l s rule: strip_prefix.induct) (auto split: if_splits)



lemma no_start_prefix: "no_start l (x # xs) \<Longrightarrow> strip_prefix l (x # xs @ v) = None"
  using strip_prefix_apart [of l "x # xs" v] by simp

lemma re_sub_thru:
  "no_start l u \<Longrightarrow> re_sub (Lit l # p) f (u @ v) = u @ re_sub (Lit l # p) f v"
  by (induction u) (auto simp: no_start_prefix simp del: strip_prefix.simps)

lemma re_sub_absent: "no_start l u \<Longrightarrow> re_sub (Lit l # p) f u = u"
  using re_sub_thru [of l u p f "[]"] by simp



lemma replace_all_thru:
  "no_start l u \<Longrightarrow> replace_all l new (u @ v) = u @ replace_all l new v"
  by (induction u) (auto simp: no_start_prefix simp del: strip_prefix.simps)

lemma replace_all_absent: "no_start l u \<Longrightarrow> replace_all l new u = u"
  using replace_all_thru [of l u new "[]"] by simp

lemma re_finditer_absent: "no_start l u \<Longrightarrow> re_finditer (Lit l # p) u = []"
proof -
  have "no_start l u \<Longrightarrow> re_finditer (Lit l # p) (u @ v) = re_finditer (Lit l # p) v" for v
    by (induction u) (auto simp: no_start_prefix simp del: strip_prefix.simps)
  from this [of "[]"] show "no_start l u \<Longrightarrow> re_finditer (Lit l # p) u = []" by simp
qed



lemma inert_special_tags: "inert s \<Longrightarrow> parse_special_tags ctx s = s"
  by (simp add: inert_def tag_openers_def parse_special_tags_def pattern_defs re_sub_absent)

subsection \<open>Plain characters\<close>

lemma plain_not_in: "list_all plain_char s \<Longrightarrow> \<not> plain_char c \<Longrightarrow> c \<notin> set s"
  by (auto simp: list_all_iff)


lemma not_plain:
  "\<not> plain_char (CHR ''<'')" "\<not> plain_char (CHR ''/'')" "\<not> plain_char (CHR ''['')"
  "\<not> plain_char (CHR '']'')" "\<not> plain_char (CHR ''('')" "\<not> plain_char (CHR ''{'')"
  "\<not> plain_char (CHR 0x0A)" "\<not> plain_char (CHR ''+'')" "\<not> plain_char bsl"
  "\<not> plain_char (CHR ''='')" "\<not> plain_char (CHR '')'')"
  by (simp_all add: plain_char_def is_word_def apostrophe_def bsl_def)

lemma plain_escape: "list_all plain_char s \<Longrightarrow> list_all plain_char (html_escape s)"
  by (induction s) (auto simp: html_escape_def escape_char_def plain_char_def is_word_def)

lemma plain_space: "plain_char c \<Longrightarrow> is_space c \<Longrightarrow> c = CHR '' ''"
  by (auto simp: plain_char_def is_word_def is_space_def apostrophe_def)


lemma nonspace_strip:
  assumes ns: "\<And>c. c \<in> set t \<Longrightarrow> \<not> is_space c"
  shows "strip t = t"
proof -
  have l: "lstrip t = t"
    by (cases t) (auto simp: lstrip_def ns)
  have "dropWhile is_space (rev t) = rev t"
    by (cases "rev t") (use ns in \<open>auto simp: dropWhile_eq_self_iff\<close>)
  then show ?thesis by (simp add: strip_def rstrip_def l)
qed


lemma plain_strip: "list_all plain_char t \<Longrightarrow> CHR '' '' \<notin> set t \<Longrightarrow> strip t = t"
  by (rule nonspace_strip) (auto simp: list_all_iff dest: plain_space)




subsection \<open>The redirect directive in the inline engine\<close>




lemma inline_plain:
  assumes s: "list_all plain_char s"
  shows "parse_inline ctx s = s"
proof -
  note no = plain_not_in [OF s]
  note none = no [OF not_plain(1)] no [OF not_plain(2)] no [OF not_plain(3)] no [OF not_plain(5)]
    no [OF not_plain(6)]
  have spans: "re_finditer plantext_pattern s = []"
    using none by (simp add: plantext_pattern_def re_finditer_skip_all)
  have "inline_rules ctx s = s"
    using none by (simp add: inline_rules_def Let_def pattern_defs re_sub_skip_all replace_all_skip_all)
  then show ?thesis
    unfolding parse_inline_def Let_def spans by simp
qed

subsection \<open>The script rule\<close>





subsection \<open>Paragraph lines\<close>

lemma html_escape_append: "html_escape (a @ b) = html_escape a @ html_escape b"
  by (simp add: html_escape_def)


section \<open>The claims\<close>

subsection \<open>Literal-text spans\<close>

text \<open>
  Claim C1 says that the content \<open>X\<close> of every span \<open><plantext>X</plantext>\<close> reaches the
  output HTML-escaped and uninterpreted, also when \<open>X\<close> spans several lines or has lines
  that begin with \<open>+\<close>. The driver splits the text into lines before \<open>parse_inline\<close>
  looks for the spans: on the three lines \<open><plantext>\<close>, \<open>+A\<close>, \<open></plantext>\<close> no span is
  found, the two tags come out as paragraphs and the line \<open>+A\<close> of \<open>X\<close> becomes a
  rank-1 heading.
\<close>

theorem C1_multiline_span_is_interpreted:
  "parse_to_html (Suc 0) ctx (''<plantext>'' @ nl @ ''+A'' @ nl @ ''</plantext>'') page
     = Inr (''<p><plantext></p>'' @ nl @ ''<h1>A</h1>'' @ nl @ ''<p></plantext></p>'')"
  by code_simp

text \<open>
  Claim C10: the markers are the plain texts \<open>__PLANTEXT_0__\<close>, ..., and the restoration
  replaces every occurrence of a marker. On the line \<open><plantext>a&b</plantext> __PLANTEXT_0__\<close>
  the escaped content of the span is emitted twice, once in the place of the marker text
  that the user wrote, and that text is not in the output.
\<close>

theorem C10_marker_text_collides:
  "parse_to_html (Suc 0) ctx ''<plantext>a&b</plantext> __PLANTEXT_0__'' page
     = Inr ''<p>a&amp;b a&amp;b</p>''
   \<and> marker 0 = ''__PLANTEXT_0__''
   \<and> html_escape ''a&b'' = ''a&amp;b''
   \<and> \<not> contains ''__PLANTEXT_0__'' ''<p>a&amp;b a&amp;b</p>''"
  by code_simp

subsection \<open>Exceptions\<close>

text \<open>
  Claim C2 says that \<open>parse_to_html\<close> never raises, also when the body of a custom
  template block has a row line. With a template \<open>MyTpl\<close> in the store, the block
  \<open>[MyTpl\<close>, \<open>a\\b\<close>, \<open>]\<close> stores a list under \<open>_table_data\<close>, and
  \<open>process_custom_template\<close> passes it to \<open>str.replace\<close>: the render call ends with
  \<open>TypeError\<close>, at every depth of the call stack that lets the template be reached.
\<close>

theorem C2_row_line_in_custom_template_raises:
  "parse_to_html (Suc (Suc depth)) (tpl_ctx ''x'') (''[MyTpl'' @ nl @ row2 ''a'' ''b'' @ nl @ '']'') page
     = Inl TypeError"
  by code_simp

subsection \<open>Headers\<close>

text \<open>
  Claim C3 says that the header level is the length of the run of \<open>+\<close> at the start of
  the line, also when the header text has more \<open>+\<close> in it. \<open>parse_headers\<close> counts
  every \<open>+\<close> of the line: \<open>+A+B\<close> has a leading run of length 1 and is rendered as a
  rank-2 heading.
\<close>

theorem C3_level_counts_every_plus:
  "parse_to_html (Suc 0) ctx ''+A+B'' page = Inr ''<h2>A+B</h2>''"
  by code_simp

subsection \<open>Link shorthands\<close>

text \<open>
  Claim C4 says that \<open>(github:owner/repo)\<close> is rendered as an external link to
  \<open>https://github.com/owner/repo\<close>. The page-link rule runs before the GitHub rule and
  matches every parenthesised run: the shorthand becomes a link to the wiki page
  \<open>github:owner/repo\<close>, and the GitHub rule finds nothing left to match.
\<close>

theorem C4_github_shorthand_becomes_page_link:
  \<open>parse_to_html (Suc 0) ctx ''(github:owner/repo)'' page
     = Inr ''<p><a href="/wiki/github:owner/repo">github:owner/repo</a></p>''\<close>
  by code_simp

text \<open>
  Claim C5 says that \<open>(ghp:user:page)\<close> is rendered as a frame sourced from
  \<open>https://user.github.io/page\<close> and that a shorthand without the second colon is
  rendered as a bracketed error text. The page-link rule takes both before the
  GitHub-Pages rule runs: both become links to a wiki page.
\<close>

theorem C5_ghp_shorthand_becomes_page_link:
  \<open>parse_to_html (Suc 0) ctx ''(ghp:user:page)'' page
     = Inr ''<p><a href="/wiki/ghp:user:page">ghp:user:page</a></p>''
   \<and> parse_to_html (Suc 0) ctx ''(ghp:user)'' page
     = Inr ''<p><a href="/wiki/ghp:user">ghp:user</a></p>''\<close>
  by code_simp

subsection \<open>Block directives\<close>

text \<open>
  Claim C6 says that a block with an unknown name and a closing line is rendered as the
  text of the directive without its brackets. The two lines \<open>[bogus x=1\<close> and \<open>]\<close> are
  rendered as they are, brackets and line break included.
\<close>

theorem C6_brackets_are_kept:
  "parse_to_html (Suc 0) plain_ctx (''[bogus x=1'' @ nl @ '']'') ''Home''
     = Inr (''[bogus x=1'' @ nl @ '']'')
   \<and> parse_to_html (Suc 0) plain_ctx (''[bogus x=1'' @ nl @ '']'') ''Home'' \<noteq> Inr ''bogus x=1''"
  by code_simp

text \<open>
  Claim C6 as amended. The input is one block: the line \<open>[\<close>, a name of word
  characters and the rest \<open>u\<close> of the directive, which may go over several lines, then
  the closing line \<open>]\<close>. The name is no built-in generator (\<open>table\<close>, \<open>navbox\<close>,
  \<open>file\<close>) and no stored template; \<open>u\<close> is ASCII text that does not go on with a word
  character and holds no \<open>]\<close>, no \<open><\<close> (no special tag), no \<open>/\<close> (no comment) and
  no backslash (no row line). Then \<open>parse_to_html\<close> returns, at every depth of the call
  stack, with every page title, the input itself: the lines of the block with their
  brackets and line breaks, not inline-parsed and not wrapped in a paragraph.
\<close>

theorem C6_unknown_block_verbatim:
  assumes ne: "name \<noteq> []" and w: "list_all is_word name"
    and nt: "name \<noteq> ''table''" and nn: "name \<noteq> ''navbox''" and nf: "name \<noteq> ''file''"
    and unknown: "templates ctx name = None"
    and hd_u: "u = [] \<or> \<not> is_word (hd u)"
    and pl: "list_all (\<lambda>c. ascii c \<and> c \<notin> set ''</]'' \<and> c \<noteq> bsl) u"
  shows "parse_to_html (Suc depth) ctx (''['' @ name @ u @ nl @ '']'') page
           = Inr (''['' @ name @ u @ nl @ '']'')"
proof -
  let ?text = "''['' @ name @ u @ nl @ '']''"
  let ?ctx = "ctx\<lparr>current_page := page\<rparr>"
  let ?render = "\<lambda>template_content. parse_to_html depth ctx template_content page"
  have u_no: "CHR ''<'' \<notin> set u" "CHR ''/'' \<notin> set u" "CHR '']'' \<notin> set u" "bsl \<notin> set u"
    using pl by (auto simp: list_all_iff)
  have n_no: "CHR ''<'' \<notin> set name" "CHR ''/'' \<notin> set name"
    using word_not_in [OF w] by (simp_all add: is_word_def)
  have comment: "re_sub comment_pattern (\<lambda>gs. []) ?text = ?text"
    using u_no n_no by (intro comments_none) (simp add: nl_def)
  have "\<forall>l'\<in>set (split (strip (u @ nl)) nl). bsl \<notin> set l'"
    using set_split [of _ "strip (u @ nl)"] set_strip [of "u @ nl"] u_no by (auto simp: nl_def bsl_def)
  then obtain d where params: "parse_params (split (strip (u @ nl)) nl) [] = Inr d"
    using parse_params_no_rows by blast
  have "render_lines ?render ?ctx (split ?text nl) = Inr [?text]"
    using block_dispatch [OF ne w hd_u u_no(3), of ?render ?ctx] params nt nn nf unknown by simp
  moreover have "parse_special_tags ?ctx ?text = ?text"
    using u_no n_no by (intro special_tags_none) (simp add: nl_def)
  ultimately show ?thesis
    using comment by (simp add: render_text_def)
qed

theorem C6_unknown_block_verbatim_witness:
  "''bogus'' \<noteq> [] \<and> list_all is_word ''bogus'' \<and> templates plain_ctx ''bogus'' = None
   \<and> \<not> is_word (hd '' x=1'')
   \<and> list_all (\<lambda>c. ascii c \<and> c \<notin> set ''</]'' \<and> c \<noteq> bsl) '' x=1''
   \<and> parse_to_html (Suc 0) plain_ctx (''[bogus x=1'' @ nl @ '']'') ''Home''
       = Inr (''[bogus x=1'' @ nl @ '']'')"
  using C6_unknown_block_verbatim [where name = "''bogus''" and u = "'' x=1''" and ctx = plain_ctx
      and depth = 0 and page = "''Home''"]
  by (simp add: is_word_def ascii_def bsl_def plain_ctx_def no_templates_def)



subsection \<open>The redirect directive and the script rule\<close>




end
